theory Spec2Isabelle
  imports Main
begin

section \<open>JavaScript values\<close>

text \<open>
  The middleware of \<^verbatim>\<open>auth/index.js\<close> decides by JavaScript truthiness
  (\<^verbatim>\<open>if (user)\<close>, \<^verbatim>\<open>a || b\<close>, \<^verbatim>\<open>a && b\<close>) on values that come from
  the session store and from MongoDB documents, so those values are modelled untyped.
  Numbers are integers here (no NaN, no fractions).
\<close>

datatype jsval =
    JUndefined
  | JNull
  | JBool bool
  | JNum int
  | JStr string
  | JObj "(string \<times> jsval) list"

fun truthy :: "jsval \<Rightarrow> bool" where
  "truthy JUndefined = False"
| "truthy JNull = False"
| "truthy (JBool b) = b"
| "truthy (JNum n) = (n \<noteq> 0)"
| "truthy (JStr s) = (s \<noteq> [])"
| "truthy (JObj kvs) = True"

text \<open>\<^verbatim>\<open>a || b\<close> and \<^verbatim>\<open>a && b\<close> return one of their operands.\<close>

definition js_or :: "jsval \<Rightarrow> jsval \<Rightarrow> jsval" where
  "js_or a b = (if truthy a then a else b)"

definition js_and :: "jsval \<Rightarrow> jsval \<Rightarrow> jsval" where
  "js_and a b = (if truthy a then b else a)"

text \<open>Property read \<^verbatim>\<open>v.k\<close> on a truthy value: a missing property is \<^verbatim>\<open>undefined\<close>.\<close>

fun get_prop :: "jsval \<Rightarrow> string \<Rightarrow> jsval" where
  "get_prop (JObj kvs) k = (case map_of kvs k of Some v \<Rightarrow> v | None \<Rightarrow> JUndefined)"
| "get_prop v k = JUndefined"

text \<open>String conversion, as a template literal \<^verbatim>\<open>`${v}`\<close> performs it.\<close>

fun show_nat :: "nat \<Rightarrow> string" where
  "show_nat n =
     (if n < 10 then [''0123456789'' ! n]
      else show_nat (n div 10) @ [''0123456789'' ! (n mod 10)])"

declare show_nat.simps [simp del]

definition show_int :: "int \<Rightarrow> string" where
  "show_int i = (if i < 0 then ''-'' @ show_nat (nat (- i)) else show_nat (nat i))"

fun js_to_string :: "jsval \<Rightarrow> string" where
  "js_to_string JUndefined = ''undefined''"
| "js_to_string JNull = ''null''"
| "js_to_string (JBool b) = (if b then ''true'' else ''false'')"
| "js_to_string (JNum n) = show_int n"
| "js_to_string (JStr s) = s"
| "js_to_string (JObj kvs) = ''[object Object]''"

text \<open>
  Request fields such as \<^verbatim>\<open>req.originalUrl\<close> are a string or \<^verbatim>\<open>undefined\<close>;
  \<^verbatim>\<open>a || b\<close> on them skips \<^verbatim>\<open>undefined\<close> and the empty string.
\<close>

definition str_or :: "string option \<Rightarrow> string \<Rightarrow> string" where
  "str_or a b = (case a of None \<Rightarrow> b | Some s \<Rightarrow> if s \<noteq> [] then s else b)"

definition startsWith :: "string \<Rightarrow> string \<Rightarrow> bool" where
  "startsWith s p = (take (length p) s = p)"

text \<open>A thrown \<^verbatim>\<open>Error\<close>: its name and message; \<^verbatim>\<open>`${e}`\<close> is \<^verbatim>\<open>Error.prototype.toString\<close>.\<close>

datatype exn = Exn (ename: string) (emessage: string)

definition exn_to_string :: "exn \<Rightarrow> string" where
  "exn_to_string e =
     (if ename e = [] then emessage e
      else if emessage e = [] then ename e
      else ename e @ '': '' @ emessage e)"

section \<open>Requests, sessions and the effects of a middleware\<close>

text \<open>
  The session object that the session layer supplies. Beside its data the record says
  how the object reacts to the two operations \<^verbatim>\<open>requireAuth\<close> performs on it.

  The module is not in strict mode, so the assignment \<^verbatim>\<open>req.session.returnTo = v\<close>
  has three outcomes: it takes effect; it is silently ignored (a frozen or
  non-extensible session, a read-only property); or a setter throws.

  \<^verbatim>\<open>req.session.save\<close> is not a function, or it is one that, when called with a
  callback, calls the callback with an error or with none, throws before returning, or
  returns and never calls the callback.
\<close>

datatype assignment = Assigned | Ignored | AssignThrows exn

datatype save_fn = NotAFunction | CallsBack "exn option" | SaveThrows exn | NeverCallsBack

record session_obj =
  userId :: jsval
  returnTo :: jsval
  returnTo_assign :: assignment
  save :: save_fn

record request =
  originalUrl :: "string option"
  path :: "string option"
  url :: "string option"
  sessionID :: "string option"
  session :: "session_obj option"

datatype level = LInfo | LError

text \<open>
  What a middleware does to the outside, in order: a call of the module's \<^verbatim>\<open>log\<close>,
  \<^verbatim>\<open>res.status(n).json(body)\<close>, \<^verbatim>\<open>res.redirect(url)\<close>, a call of the downstream
  handler, and a call of \<^verbatim>\<open>req.session.save\<close> by its outcome: \<open>SessionSave err\<close> when
  the callback ran (with the error it received), \<open>SaveThrew e\<close> when the call threw
  \<open>e\<close>, which then leaves the middleware uncaught, and \<open>SaveHangs\<close> when the
  callback never runs.
\<close>

datatype event =
    Log string level
  | StatusJson nat "(string \<times> jsval) list"
  | Redirect string
  | SessionSave "exn option"
  | SaveThrew exn
  | SaveHangs
  | Next

record ctx =
  req :: request
  res_locals_user :: jsval
  trace :: "event list"

text \<open>
  A middleware \<^verbatim>\<open>(req, res, next)\<close> is a function from the state of the request to
  the state it leaves, with the continuation \<^verbatim>\<open>next\<close> as a parameter; a pipeline is
  built by passing the next middleware as continuation. The asynchronous steps (the
  awaited lookup, the callback of \<^verbatim>\<open>save\<close>) are taken in the order in which they
  complete. The continuation, the logger function and the response methods are total:
  they do not throw. What the store accessor, the driver, the lookup, a setter of the
  session and \<^verbatim>\<open>save\<close> may throw is a value of type \<open>exn\<close>.
\<close>

definition emit :: "event \<Rightarrow> ctx \<Rightarrow> ctx" where
  "emit e c = c\<lparr>trace := trace c @ [e]\<rparr>"

text \<open>
  \<^verbatim>\<open>log(message, level = 'info')\<close> is the closure \<^verbatim>\<open>createLogger(config.logger)\<close>; the
  trace records each call, and \<open>createLogger\<close> says what the configured logger function
  receives for it: nothing when no function is configured.
\<close>

definition log :: "string \<Rightarrow> level \<Rightarrow> ctx \<Rightarrow> ctx" where
  "log message lvl c = emit (Log message lvl) c"

definition createLogger :: "bool \<Rightarrow> string \<Rightarrow> level \<Rightarrow> string list" where
  "createLogger loggerFn message lvl =
     (if \<not> loggerFn then []
      else [(if lvl = LError then ''[AUTH ERROR]'' else ''[AUTH]'') @ '' '' @ message])"

section \<open>The store and the configuration\<close>

text \<open>
  The MongoDB driver and the database are outside the repository: a collection answers
  \<^verbatim>\<open>findOne({_id: oid})\<close> with a document, with \<^verbatim>\<open>null\<close> or with a rejection, and
  \<^verbatim>\<open>db.collection(name)\<close> and \<^verbatim>\<open>new ObjectId(v)\<close> may throw.
\<close>

datatype coll = Coll (findOne: "jsval \<Rightarrow> exn + jsval")

datatype db = Db (collection: "string \<Rightarrow> exn + coll")

record driver =
  isValid :: "jsval \<Rightarrow> bool"
  newObjectId :: "jsval \<Rightarrow> exn + jsval"

text \<open>
  \<open>dbGetter\<close> returns a handle, a falsy value (\<open>None\<close>) or throws; \<open>logger\<close> says
  whether a logger function is configured.
\<close>

record config =
  dbGetter :: "request \<Rightarrow> exn + db option"
  loginRedirectUrl :: string
  usersCollection :: string
  logger :: bool

section \<open>attachUser\<close>

definition request_label :: "request \<Rightarrow> string" where
  "request_label r = str_or (originalUrl r) (str_or (path r) ''unknown'')"

text \<open>The object literal that \<^verbatim>\<open>attachUser\<close> publishes for a record it found.\<close>

definition identity_snapshot :: "jsval \<Rightarrow> jsval" where
  "identity_snapshot user =
     JObj [(''_id'', get_prop user ''_id''),
           (''name'', get_prop user ''name''),
           (''email'', get_prop user ''email''),
           (''isAdmin'', js_or (get_prop user ''isAdmin'') (JBool False))]"

text \<open>
  How the \<^verbatim>\<open>try\<close> block ends: with \<^verbatim>\<open>return next()\<close>, by running to its end, or
  with an exception for the \<^verbatim>\<open>catch\<close> clause.
\<close>

datatype completion = Returned | Fallthrough | Thrown exn

definition attachUser_try ::
  "config \<Rightarrow> driver \<Rightarrow> (ctx \<Rightarrow> ctx) \<Rightarrow> jsval \<Rightarrow> ctx \<Rightarrow> completion \<times> ctx" where
  "attachUser_try cfg drv nxt uid c =
     (case dbGetter cfg (req c) of
        Inl e \<Rightarrow> (Thrown e, c)
      | Inr None \<Rightarrow>
          (Returned, nxt (log ''attachUser: Database connection not available'' LError c))
      | Inr (Some d) \<Rightarrow>
          (case collection d (usersCollection cfg) of
             Inl e \<Rightarrow> (Thrown e, c)
           | Inr usersColl \<Rightarrow>
               if \<not> isValid drv uid then
                 (Returned,
                  nxt (log (''attachUser: Invalid userId format in session: '' @ js_to_string uid)
                         LError c))
               else
                 (case newObjectId drv uid of
                    Inl e \<Rightarrow> (Thrown e, c)
                  | Inr oid \<Rightarrow>
                      (case findOne usersColl oid of
                         Inl e \<Rightarrow> (Thrown e, c)
                       | Inr user \<Rightarrow>
                           if truthy user then
                             (Fallthrough,
                              (log (''attachUser: User found: ''
                                      @ js_to_string (get_prop user ''name'') @ '' (''
                                      @ js_to_string (get_prop user ''email'') @ '')'')
                                 LInfo c)
                              \<lparr>res_locals_user := identity_snapshot user\<rparr>)
                           else
                             (Fallthrough,
                              log (''attachUser: No user found for userId: '' @ js_to_string uid)
                                LError c)))))"

definition attachUser :: "config \<Rightarrow> driver \<Rightarrow> (ctx \<Rightarrow> ctx) \<Rightarrow> ctx \<Rightarrow> ctx" where
  "attachUser cfg drv nxt c0 =
     (let c1 = log (''attachUser: Checking session for '' @ request_label (req c0)
                      @ '' - Session ID: '' @ str_or (sessionID (req c0)) ''none'') LInfo c0;
          c2 = c1\<lparr>res_locals_user := JNull\<rparr>
      in case session (req c2) of
           None \<Rightarrow> nxt (log ''attachUser: No session or userId found'' LInfo c2)
         | Some s \<Rightarrow>
             if truthy (userId s) then
               (case attachUser_try cfg drv nxt (userId s)
                       (log (''attachUser: Session found with userId: ''
                               @ js_to_string (userId s)) LInfo c2) of
                  (Returned, c3) \<Rightarrow> c3
                | (Fallthrough, c3) \<Rightarrow> nxt c3
                | (Thrown e, c3) \<Rightarrow>
                    nxt (log (''attachUser: Error fetching user: '' @ emessage e) LError c3))
             else nxt (log ''attachUser: No session or userId found'' LInfo c2))"

section \<open>requireAuth, optionalAuth, requireAdmin\<close>

definition isApiRequest :: "request \<Rightarrow> bool" where
  "isApiRequest r =
     (case originalUrl r of None \<Rightarrow> False | Some u \<Rightarrow> u \<noteq> [] \<and> startsWith u ''/api'')"

definition unauthorized_body :: "(string \<times> jsval) list" where
  "unauthorized_body = [(''status'', JStr ''error''), (''message'', JStr ''Unauthorized'')]"

definition forbidden_body :: "(string \<times> jsval) list" where
  "forbidden_body =
     [(''status'', JStr ''error''), (''message'', JStr ''Forbidden: Admin access required'')]"

text \<open>The value of \<^verbatim>\<open>req.originalUrl || req.url\<close>.\<close>

definition requested_url :: "request \<Rightarrow> jsval" where
  "requested_url r =
     (case originalUrl r of
        Some u \<Rightarrow> if u \<noteq> [] then JStr u
                  else (case url r of None \<Rightarrow> JUndefined | Some v \<Rightarrow> JStr v)
      | None \<Rightarrow> (case url r of None \<Rightarrow> JUndefined | Some v \<Rightarrow> JStr v))"

definition requireAuth :: "config \<Rightarrow> (ctx \<Rightarrow> ctx) \<Rightarrow> ctx \<Rightarrow> ctx" where
  "requireAuth cfg nxt c0 =
     (let c1 = log (''requireAuth: Path: '' @ request_label (req c0) @ '', Session ID: ''
                      @ str_or (sessionID (req c0)) ''none'') LInfo c0
      in case session (req c1) of
           None \<Rightarrow>
             (let c2 = log (''requireAuth: req.session is undefined. ''
                              @ ''Ensure express-session is applied before auth middleware.'')
                         LError c1
              in if isApiRequest (req c2) then emit (StatusJson 401 unauthorized_body) c2
                 else emit (Redirect (loginRedirectUrl cfg)) c2)
         | Some s \<Rightarrow>
             if \<not> truthy (userId s) then
               (let c2 = log (''requireAuth: No user ID for session. Path: ''
                                @ request_label (req c0)) LInfo c1
                in if isApiRequest (req c2) then emit (StatusJson 401 unauthorized_body) c2
                   else
                     (let c3 = (case returnTo_assign s of
                                  Assigned \<Rightarrow>
                                    c2\<lparr>req := (req c2)
                                         \<lparr>session := Some (s\<lparr>returnTo := requested_url (req c2)\<rparr>)\<rparr>\<rparr>
                                | Ignored \<Rightarrow> c2
                                | AssignThrows e \<Rightarrow>
                                    log (''requireAuth: Failed to set returnTo on session: ''
                                           @ exn_to_string e) LError c2)
                      in case save s of
                           CallsBack err \<Rightarrow>
                             (let c4 = emit (SessionSave err) c3;
                                  c5 = (case err of
                                          Some e \<Rightarrow>
                                            log (''requireAuth: ERROR SAVING SESSION: ''
                                                   @ exn_to_string e) LError c4
                                        | None \<Rightarrow> c4)
                              in emit (Redirect (loginRedirectUrl cfg)) c5)
                         | SaveThrows e \<Rightarrow> emit (SaveThrew e) c3
                         | NeverCallsBack \<Rightarrow> emit SaveHangs c3
                         | NotAFunction \<Rightarrow> emit (Redirect (loginRedirectUrl cfg)) c3))
             else nxt c1)"

definition optionalAuth :: "config \<Rightarrow> driver \<Rightarrow> (ctx \<Rightarrow> ctx) \<Rightarrow> ctx \<Rightarrow> ctx" where
  "optionalAuth cfg drv nxt c =
     attachUser cfg drv (\<lambda>c'. nxt c')
       (log (''optionalAuth: Path: '' @ request_label (req c)) LInfo c)"

definition requireAdmin :: "(ctx \<Rightarrow> ctx) \<Rightarrow> ctx \<Rightarrow> ctx" where
  "requireAdmin nxt c =
     (if truthy (js_and (res_locals_user c) (get_prop (res_locals_user c) ''isAdmin''))
      then nxt c
      else if isApiRequest (req c) then emit (StatusJson 403 forbidden_body) c
      else emit (Redirect ''/'') c)"

section \<open>createSessionConfig\<close>

record session_options =
  mongoUri :: "string option"
  secret :: "string option"
  isProduction :: "bool option"
  maxAge :: "int option"

record cookie_config =
  cookie_maxAge :: int
  cookie_httpOnly :: bool
  cookie_sameSite :: string
  cookie_secure :: bool

record session_config =
  cfg_name :: string
  cfg_secret :: string
  cfg_resave :: bool
  cfg_saveUninitialized :: bool
  cfg_databaseName :: string
  cfg_collection :: string
  cfg_cookie :: cookie_config

datatype config_error = ConfigError string

definition createSessionConfig :: "session_options \<Rightarrow> config_error + session_config" where
  "createSessionConfig options =
     (let isProd = (case isProduction options of None \<Rightarrow> False | Some b \<Rightarrow> b);
          age = (case maxAge options of None \<Rightarrow> 1000 * 60 * 60 * 24 | Some n \<Rightarrow> n)
      in if str_or (mongoUri options) [] = [] then
           Inl (ConfigError ''dataapi-auth: mongoUri is required for session config'')
         else
           (case secret options of
              None \<Rightarrow> Inl (ConfigError ''dataapi-auth: secret is required for session config'')
            | Some sec \<Rightarrow>
                if sec = [] then
                  Inl (ConfigError ''dataapi-auth: secret is required for session config'')
                else
                  Inr \<lparr>cfg_name = ''data-api.sid'',
                       cfg_secret = sec,
                       cfg_resave = False,
                       cfg_saveUninitialized = False,
                       cfg_databaseName = (if isProd then ''datas'' else ''devdatas''),
                       cfg_collection = ''mySessions'',
                       cfg_cookie = \<lparr>cookie_maxAge = age,
                                      cookie_httpOnly = True,
                                      cookie_sameSite = ''lax'',
                                      cookie_secure = isProd\<rparr>\<rparr>))"

section \<open>Vocabulary of the specification\<close>

text \<open>
  The outcomes of identity resolution as the specification names them (sections 4.1
  and 7), read off the session and the store in the order in which \<^verbatim>\<open>attachUser\<close>
  consults them: no session or no user identifier, no store handle, a malformed
  identifier, no record, an error thrown on the way, or the record found.
\<close>

datatype resolution =
  NoIdentifier | NoHandle | Malformed | NotFound | LookupError exn | Resolved jsval

definition resolve :: "config \<Rightarrow> driver \<Rightarrow> request \<Rightarrow> resolution" where
  "resolve cfg drv r =
     (case session r of
        None \<Rightarrow> NoIdentifier
      | Some s \<Rightarrow>
          if \<not> truthy (userId s) then NoIdentifier
          else
            (case dbGetter cfg r of
               Inl e \<Rightarrow> LookupError e
             | Inr None \<Rightarrow> NoHandle
             | Inr (Some d) \<Rightarrow>
                 (case collection d (usersCollection cfg) of
                    Inl e \<Rightarrow> LookupError e
                  | Inr usersColl \<Rightarrow>
                      if \<not> isValid drv (userId s) then Malformed
                      else
                        (case newObjectId drv (userId s) of
                           Inl e \<Rightarrow> LookupError e
                         | Inr oid \<Rightarrow>
                             (case findOne usersColl oid of
                                Inl e \<Rightarrow> LookupError e
                              | Inr user \<Rightarrow>
                                  if truthy user then Resolved user else NotFound)))))"

text \<open>
  The effects of a middleware apart from its log lines: responses, session saves and
  the call of the downstream handler.
\<close>

definition is_log :: "event \<Rightarrow> bool" where
  "is_log e = (case e of Log m l \<Rightarrow> True | _ \<Rightarrow> False)"

definition effects :: "ctx \<Rightarrow> event list" where
  "effects c = filter (\<lambda>e. \<not> is_log e) (trace c)"

text \<open>The calls of \<^verbatim>\<open>req.session.save\<close> in a trace, whatever their outcome.\<close>

definition is_save :: "event \<Rightarrow> bool" where
  "is_save e =
     (case e of SessionSave err \<Rightarrow> True | SaveThrew x \<Rightarrow> True | SaveHangs \<Rightarrow> True
      | _ \<Rightarrow> False)"

definition save_calls :: "ctx \<Rightarrow> event list" where
  "save_calls c = filter is_save (trace c)"

text \<open>The lines a configured logger function receives for the log calls of a trace.\<close>

definition logger_lines :: "config \<Rightarrow> event list \<Rightarrow> string list" where
  "logger_lines cfg tr =
     concat (map (\<lambda>e. case e of Log m l \<Rightarrow> createLogger (logger cfg) m l | _ \<Rightarrow> []) tr)"

section \<open>A small deployment for concrete runs\<close>

text \<open>
  A users collection holding the given documents, looked up by \<^verbatim>\<open>_id\<close>; identifiers
  are valid when they are strings of 24 characters, and the configuration is the module's
  \<^verbatim>\<open>DEFAULT_CONFIG\<close> with a \<^verbatim>\<open>dbGetter\<close> that returns this database.
\<close>

definition users_db :: "jsval list \<Rightarrow> db" where
  "users_db docs =
     Db (\<lambda>name. Inr (Coll (\<lambda>oid.
           Inr (if name = ''users''
                then (case find (\<lambda>u. get_prop u ''_id'' = oid) docs of
                        Some u \<Rightarrow> u | None \<Rightarrow> JNull)
                else JNull))))"

definition demo_driver :: driver where
  "demo_driver =
     \<lparr>isValid = (\<lambda>v. case v of JStr s \<Rightarrow> length s = 24 | _ \<Rightarrow> False),
      newObjectId = (\<lambda>v. Inr v)\<rparr>"

definition demo_config :: "jsval list \<Rightarrow> config" where
  "demo_config docs =
     \<lparr>dbGetter = (\<lambda>r. Inr (Some (users_db docs))),
      loginRedirectUrl = ''https://data.specialblend.ca/login'',
      usersCollection = ''users'',
      logger = False\<rparr>"

definition demo_request :: "string \<Rightarrow> session_obj option \<Rightarrow> ctx" where
  "demo_request u s =
     \<lparr>req = \<lparr>originalUrl = Some u, path = Some u, url = Some u,
             sessionID = Some ''sid'', session = s\<rparr>,
      res_locals_user = JUndefined,
      trace = []\<rparr>"

definition demo_session :: "jsval \<Rightarrow> session_obj" where
  "demo_session uid =
     \<lparr>userId = uid, returnTo = JUndefined, returnTo_assign = Assigned, save = CallsBack None\<rparr>"

definition demo_user :: jsval where
  "demo_user =
     JObj [(''_id'', JStr ''507f1f77bcf86cd799439011''),
           (''name'', JStr ''Ann''),
           (''email'', JStr ''ann@example.org''),
           (''password'', JStr ''$2b$10$N9qo8uLOickgx2ZMRZoMye''),
           (''resetToken'', JStr ''a1b2c3'')]"

text \<open>A deployment whose every lookup is rejected with the given error, with a logger configured.\<close>

definition failing_config :: "exn \<Rightarrow> config" where
  "failing_config e =
     \<lparr>dbGetter = (\<lambda>r. Inr (Some (Db (\<lambda>name. Inr (Coll (\<lambda>oid. Inl e)))))),
      loginRedirectUrl = ''https://data.specialblend.ca/login'',
      usersCollection = ''users'',
      logger = True\<rparr>"

section \<open>Basic facts about the trace and the resolver\<close>

lemma effects_log [simp]: "effects (log m l c) = effects c"
  by (simp add: effects_def log_def emit_def is_log_def)

lemma req_log [simp]: "req (log m l c) = req c"
  by (simp add: log_def emit_def)

lemma user_log [simp]: "res_locals_user (log m l c) = res_locals_user c"
  by (simp add: log_def emit_def)

lemma log_user_update [simp]:
  "log m l (c\<lparr>res_locals_user := v\<rparr>) = (log m l c)\<lparr>res_locals_user := v\<rparr>"
  by (simp add: log_def emit_def)

lemma effects_user_update [simp]: "effects (c\<lparr>res_locals_user := v\<rparr>) = effects c"
  by (simp add: effects_def)

text \<open>The continuation is always the last thing \<^verbatim>\<open>attachUser\<close> does.\<close>

lemma attachUser_try_tail:
  "attachUser_try cfg drv nxt uid c =
     (case attachUser_try cfg drv id uid c of
        (Returned, c') \<Rightarrow> (Returned, nxt c')
      | r \<Rightarrow> r)"
  by (simp add: attachUser_try_def split: sum.splits option.splits)

lemma attachUser_tail: "attachUser cfg drv nxt c = nxt (attachUser cfg drv id c)"
  unfolding attachUser_def Let_def
  by (subst attachUser_try_tail)
     (simp split: option.splits prod.splits completion.splits)

lemma attachUser_try_frame:
  "attachUser_try cfg drv id uid c = (r, c') \<Longrightarrow> req c' = req c \<and> effects c' = effects c"
  by (auto simp: attachUser_try_def split: sum.splits option.splits if_splits)

lemma attachUser_req: "req (attachUser cfg drv id c) = req c"
  unfolding attachUser_def Let_def
  by (auto split: option.splits prod.splits completion.splits dest: attachUser_try_frame)

lemma attachUser_effects: "effects (attachUser cfg drv id c) = effects c"
  unfolding attachUser_def Let_def
  by (auto split: option.splits prod.splits completion.splits dest: attachUser_try_frame)

text \<open>What \<^verbatim>\<open>attachUser\<close> publishes is decided by the outcome of the resolution alone.\<close>

lemma attachUser_try_user:
  "session (req c) = Some s \<Longrightarrow> truthy (userId s) \<Longrightarrow>
   res_locals_user (snd (attachUser_try cfg drv id (userId s) c)) =
     (case resolve cfg drv (req c) of
        Resolved u \<Rightarrow> identity_snapshot u
      | _ \<Rightarrow> res_locals_user c)"
  by (simp add: attachUser_try_def resolve_def split: sum.splits option.splits)

lemma attachUser_user:
  "res_locals_user (attachUser cfg drv id c) =
     (case resolve cfg drv (req c) of
        Resolved u \<Rightarrow> identity_snapshot u
      | _ \<Rightarrow> JNull)"
proof (cases "session (req c)")
  case None
  then show ?thesis by (simp add: attachUser_def resolve_def)
next
  case (Some s)
  show ?thesis
  proof (cases "truthy (userId s)")
    case False
    with Some show ?thesis by (simp add: attachUser_def resolve_def)
  next
    case True
    let ?c = "log (''attachUser: Session found with userId: '' @ js_to_string (userId s)) LInfo
               ((log (''attachUser: Checking session for '' @ request_label (req c)
                      @ '' - Session ID: '' @ str_or (sessionID (req c)) ''none'') LInfo c)
                 \<lparr>res_locals_user := JNull\<rparr>)"
    have s: "session (req ?c) = Some s" using Some by simp
    have "res_locals_user (attachUser cfg drv id c)
          = res_locals_user (snd (attachUser_try cfg drv id (userId s) ?c))"
      using Some True
      by (simp add: attachUser_def split: prod.splits completion.splits)
    also have "\<dots> = (case resolve cfg drv (req ?c) of
        Resolved u \<Rightarrow> identity_snapshot u
      | _ \<Rightarrow> res_locals_user ?c)"
      by (rule attachUser_try_user [OF s True])
    finally show ?thesis by (simp split: resolution.splits)
  qed
qed

section \<open>The session parameters\<close>

text \<open>
  C5, as the specification states it: switching the production flag off changes the
  database name and leaves every other field of the configuration as it was. The code
  refutes this: \<^verbatim>\<open>cookie.secure\<close> is the production flag itself, so it changes too.
\<close>

theorem createSessionConfig_unchanged_counterexample:
  "createSessionConfig
     \<lparr>mongoUri = Some ''m'', secret = Some ''s'', isProduction = Some False, maxAge = None\<rparr>
   \<noteq> map_sum id (\<lambda>p. p\<lparr>cfg_databaseName := ''devdatas''\<rparr>)
       (createSessionConfig
          \<lparr>mongoUri = Some ''m'', secret = Some ''s'', isProduction = Some True, maxAge = None\<rparr>)"
  by (simp add: createSessionConfig_def str_or_def)

text \<open>
  C5, amended: for a non-empty store locator and secret and no lifetime given,
  \<^verbatim>\<open>createSessionConfig\<close> returns, with the production flag set, the configuration with
  cookie lifetime 86400000 ms, \<^verbatim>\<open>secure = true\<close> and database \<^verbatim>\<open>datas\<close>; with the flag
  unset (absent or false) it returns the same configuration but for the database name
  \<^verbatim>\<open>devdatas\<close> and \<^verbatim>\<open>secure = false\<close>; and for an absent or empty store locator or
  secret it fails with a configuration error and returns no configuration.
\<close>

theorem createSessionConfig_by_environment:
  assumes "uri \<noteq> []" and "sec \<noteq> []"
  shows "createSessionConfig
           \<lparr>mongoUri = Some uri, secret = Some sec, isProduction = Some True, maxAge = None\<rparr>
         = Inr \<lparr>cfg_name = ''data-api.sid'', cfg_secret = sec, cfg_resave = False,
                cfg_saveUninitialized = False, cfg_databaseName = ''datas'',
                cfg_collection = ''mySessions'',
                cfg_cookie = \<lparr>cookie_maxAge = 86400000, cookie_httpOnly = True,
                               cookie_sameSite = ''lax'', cookie_secure = True\<rparr>\<rparr>
       \<and> (\<forall>flag \<in> {None, Some False}.
            createSessionConfig
              \<lparr>mongoUri = Some uri, secret = Some sec, isProduction = flag, maxAge = None\<rparr>
            = Inr \<lparr>cfg_name = ''data-api.sid'', cfg_secret = sec, cfg_resave = False,
                   cfg_saveUninitialized = False, cfg_databaseName = ''devdatas'',
                   cfg_collection = ''mySessions'',
                   cfg_cookie = \<lparr>cookie_maxAge = 86400000, cookie_httpOnly = True,
                                  cookie_sameSite = ''lax'', cookie_secure = False\<rparr>\<rparr>)
       \<and> (mongoUri opts \<in> {None, Some []} \<or> secret opts \<in> {None, Some []}
            \<longrightarrow> (\<exists>msg. createSessionConfig opts = Inl (ConfigError msg)))"
  using assms by (auto simp: createSessionConfig_def str_or_def Let_def split: option.splits)

theorem createSessionConfig_by_environment_witness:
  "createSessionConfig
     \<lparr>mongoUri = Some ''m'', secret = Some ''s'', isProduction = Some True, maxAge = None\<rparr>
   = Inr \<lparr>cfg_name = ''data-api.sid'', cfg_secret = ''s'', cfg_resave = False,
          cfg_saveUninitialized = False, cfg_databaseName = ''datas'',
          cfg_collection = ''mySessions'',
          cfg_cookie = \<lparr>cookie_maxAge = 86400000, cookie_httpOnly = True,
                         cookie_sameSite = ''lax'', cookie_secure = True\<rparr>\<rparr>
   \<and> createSessionConfig
       \<lparr>mongoUri = Some ''m'', secret = Some ''s'', isProduction = None, maxAge = None\<rparr>
     = Inr \<lparr>cfg_name = ''data-api.sid'', cfg_secret = ''s'', cfg_resave = False,
            cfg_saveUninitialized = False, cfg_databaseName = ''devdatas'',
            cfg_collection = ''mySessions'',
            cfg_cookie = \<lparr>cookie_maxAge = 86400000, cookie_httpOnly = True,
                           cookie_sameSite = ''lax'', cookie_secure = False\<rparr>\<rparr>
   \<and> (\<exists>msg. createSessionConfig
         \<lparr>mongoUri = Some ''m'', secret = Some [], isProduction = Some True, maxAge = None\<rparr>
        = Inl (ConfigError msg))"
  using createSessionConfig_by_environment [of "''m''" "''s''"
      "\<lparr>mongoUri = Some ''m'', secret = Some [], isProduction = Some True, maxAge = None\<rparr>"]
  by simp

section \<open>Further facts about traces and gates\<close>

lemma effects_emit: "effects (emit e c) = effects c @ (if is_log e then [] else [e])"
  by (simp add: effects_def emit_def)

lemma req_emit [simp]: "req (emit e c) = req c"
  by (simp add: emit_def)

lemma user_emit [simp]: "res_locals_user (emit e c) = res_locals_user c"
  by (simp add: emit_def)

lemma effects_req_update [simp]: "effects (c\<lparr>req := r\<rparr>) = effects c"
  by (simp add: effects_def)

lemma resolve_has_id:
  "resolve cfg drv r \<noteq> NoIdentifier \<Longrightarrow> \<exists>s. session r = Some s \<and> truthy (userId s)"
  by (auto simp: resolve_def split: option.splits if_splits)

lemma optionalAuth_unfold:
  "optionalAuth cfg drv nxt c =
     attachUser cfg drv nxt (log (''optionalAuth: Path: '' @ request_label (req c)) LInfo c)"
  by (simp add: optionalAuth_def)

lemma optionalAuth_tail: "optionalAuth cfg drv nxt c = nxt (optionalAuth cfg drv id c)"
  by (simp add: optionalAuth_unfold attachUser_tail [of cfg drv nxt])

lemma optionalAuth_req: "req (optionalAuth cfg drv id c) = req c"
  by (simp add: optionalAuth_unfold attachUser_req)

lemma optionalAuth_effects: "effects (optionalAuth cfg drv id c) = effects c"
  by (simp add: optionalAuth_unfold attachUser_effects)

lemma optionalAuth_user:
  "res_locals_user (optionalAuth cfg drv id c) = res_locals_user (attachUser cfg drv id c)"
  by (simp add: optionalAuth_unfold attachUser_user)

lemma get_prop_snapshot:
  "get_prop (identity_snapshot u) k =
     (if k = ''_id'' then get_prop u ''_id''
      else if k = ''name'' then get_prop u ''name''
      else if k = ''email'' then get_prop u ''email''
      else if k = ''isAdmin'' then js_or (get_prop u ''isAdmin'') (JBool False)
      else JUndefined)"
  by (simp add: identity_snapshot_def)

text \<open>\<^verbatim>\<open>requireAuth\<close> lets a request through as soon as its session has a truthy user identifier.\<close>

lemma requireAuth_pass:
  "session (req c) = Some s \<Longrightarrow> truthy (userId s) \<Longrightarrow>
   requireAuth cfg nxt c =
     nxt (log (''requireAuth: Path: '' @ request_label (req c) @ '', Session ID: ''
                 @ str_or (sessionID (req c)) ''none'') LInfo c)"
  by (simp add: requireAuth_def)

lemma requireAuth_req:
  "req (requireAuth cfg id c) =
     (case session (req c) of
        None \<Rightarrow> req c
      | Some s \<Rightarrow>
          if \<not> truthy (userId s) \<and> \<not> isApiRequest (req c) \<and> returnTo_assign s = Assigned
          then (req c)\<lparr>session := Some (s\<lparr>returnTo := requested_url (req c)\<rparr>)\<rparr>
          else req c)"
  by (simp add: requireAuth_def Let_def split: option.splits assignment.splits save_fn.splits)

lemma isApiRequest_prefix:
  "isApiRequest r = (\<exists>u. originalUrl r = Some u \<and> take 4 u = ''/api'')"
proof -
  have "length ''/api'' = 4" by simp
  then have "\<And>u. startsWith u ''/api'' = (take 4 u = ''/api'')"
    unfolding startsWith_def by (simp only:)
  then show ?thesis
    by (auto simp: isApiRequest_def split: option.splits)
qed

lemma requested_url_original:
  "originalUrl r = Some u \<Longrightarrow> u \<noteq> [] \<Longrightarrow> requested_url r = JStr u"
  by (simp add: requested_url_def)

text \<open>The whole trace of a rejected interactive request that has a session.\<close>

lemma requireAuth_interactive_trace:
  assumes "session (req c) = Some s" and "\<not> truthy (userId s)" and "\<not> isApiRequest (req c)"
  shows "trace (requireAuth cfg nxt c) =
     trace c
     @ [Log (''requireAuth: Path: '' @ request_label (req c) @ '', Session ID: ''
                      @ str_or (sessionID (req c)) ''none'') LInfo,
        Log (''requireAuth: No user ID for session. Path: '' @ request_label (req c)) LInfo]
     @ (case returnTo_assign s of
          AssignThrows e \<Rightarrow> [Log (''requireAuth: Failed to set returnTo on session: ''
                                  @ exn_to_string e) LError]
        | _ \<Rightarrow> [])
     @ (case save s of
          NotAFunction \<Rightarrow> [Redirect (loginRedirectUrl cfg)]
        | CallsBack err \<Rightarrow>
            SessionSave err
            # (case err of
                 None \<Rightarrow> []
               | Some e \<Rightarrow> [Log (''requireAuth: ERROR SAVING SESSION: ''
                                 @ exn_to_string e) LError])
            @ [Redirect (loginRedirectUrl cfg)]
        | SaveThrows e \<Rightarrow> [SaveThrew e]
        | NeverCallsBack \<Rightarrow> [SaveHangs])"
  using assms
  by (simp add: requireAuth_def Let_def log_def emit_def
      split: option.splits assignment.splits save_fn.splits)

lemma save_calls_log [simp]: "save_calls (log m l c) = save_calls c"
  by (simp add: save_calls_def log_def emit_def is_save_def)

lemma save_calls_emit: "save_calls (emit e c) = save_calls c @ (if is_save e then [e] else [])"
  by (simp add: save_calls_def emit_def)

lemma save_calls_req_update [simp]: "save_calls (c\<lparr>req := r\<rparr>) = save_calls c"
  by (simp add: save_calls_def)

lemma requireAuth_save_calls:
  "save_calls (requireAuth cfg id c) =
     save_calls c
     @ (case session (req c) of
          None \<Rightarrow> []
        | Some s \<Rightarrow>
            if \<not> truthy (userId s) \<and> \<not> isApiRequest (req c)
            then (case save s of
                    NotAFunction \<Rightarrow> []
                  | CallsBack err \<Rightarrow> [SessionSave err]
                  | SaveThrows e \<Rightarrow> [SaveThrew e]
                  | NeverCallsBack \<Rightarrow> [SaveHangs])
            else [])"
  by (simp add: requireAuth_def Let_def save_calls_emit is_save_def
      split: option.splits assignment.splits save_fn.splits)

text \<open>The definitions a concrete run unfolds.\<close>

lemmas run_defs =
  resolve_def attachUser_def attachUser_try_def requireAuth_def requireAdmin_def
  optionalAuth_def demo_config_def demo_driver_def demo_request_def demo_session_def
  users_db_def effects_def log_def emit_def is_log_def isApiRequest_def startsWith_def
  requested_url_def js_and_def js_or_def identity_snapshot_def

section \<open>Stale sessions\<close>

text \<open>
  C1, as the specification states it: a session whose user identifier matches no record
  is rejected by \<^verbatim>\<open>requireAuth\<close>. The code refutes this. With an empty users collection
  and a well-formed identifier in the session, \<^verbatim>\<open>attachUser\<close> followed by
  \<^verbatim>\<open>requireAuth\<close> on \<^verbatim>\<open>/api/devices\<close> issues no response and calls the downstream
  handler, with a null identity published.
\<close>

theorem stale_session_counterexample:
  "resolve (demo_config []) demo_driver
     (req (demo_request ''/api/devices''
             (Some (demo_session (JStr ''507f1f77bcf86cd799439011''))))) = NotFound
   \<and> effects (attachUser (demo_config []) demo_driver (requireAuth (demo_config []) (emit Next))
        (demo_request ''/api/devices''
           (Some (demo_session (JStr ''507f1f77bcf86cd799439011''))))) = [Next]
   \<and> res_locals_user
       (attachUser (demo_config []) demo_driver (requireAuth (demo_config []) (emit Next))
        (demo_request ''/api/devices''
           (Some (demo_session (JStr ''507f1f77bcf86cd799439011''))))) = JNull"
  by (simp add: resolve_def attachUser_def attachUser_try_def requireAuth_def demo_config_def
      demo_driver_def demo_request_def demo_session_def users_db_def effects_def log_def
      emit_def is_log_def)

text \<open>
  C1, amended: for every request whose session carries a user identifier that matches no
  record of the users store, \<^verbatim>\<open>attachUser\<close> publishes a null identity; \<^verbatim>\<open>requireAuth\<close>,
  which tests only that the session has a user identifier, does not reject the request
  but calls its continuation without a response, the published identity still null. A
  \<^verbatim>\<open>requireAdmin\<close> placed behind it rejects the request (403 for an \<^verbatim>\<open>/api\<close> path, a
  redirect to \<^verbatim>\<open>/\<close> otherwise).
\<close>

theorem stale_session_passes_requireAuth:
  assumes "resolve cfg drv (req c) = NotFound"
  shows "res_locals_user (attachUser cfg drv id c) = JNull
       \<and> attachUser cfg drv (requireAuth cfg2 nxt) c
           = nxt (attachUser cfg drv (requireAuth cfg2 id) c)
       \<and> effects (attachUser cfg drv (requireAuth cfg2 id) c) = effects c
       \<and> res_locals_user (attachUser cfg drv (requireAuth cfg2 id) c) = JNull
       \<and> effects (attachUser cfg drv (requireAuth cfg2 (requireAdmin nxt)) c)
           = effects c @ [if isApiRequest (req c) then StatusJson 403 forbidden_body
                          else Redirect ''/'']"
proof -
  let ?c = "attachUser cfg drv id c"
  from assms obtain s where s: "session (req c) = Some s" "truthy (userId s)"
    using resolve_has_id [of cfg drv "req c"] by auto
  have u: "res_locals_user ?c = JNull"
    by (simp add: attachUser_user assms)
  have r: "req ?c = req c" by (rule attachUser_req)
  have e: "effects ?c = effects c" by (rule attachUser_effects)
  have s': "session (req ?c) = Some s" using s r by simp
  note p = requireAuth_pass [OF s' s(2)]
  have t: "\<And>k. attachUser cfg drv (requireAuth cfg2 k) c = requireAuth cfg2 k ?c"
    by (rule attachUser_tail)
  show ?thesis
    using u r e
    by (simp add: t p requireAdmin_def js_and_def effects_emit is_log_def)
qed

theorem stale_session_passes_requireAuth_witness:
  "resolve (demo_config []) demo_driver
     (req (demo_request ''/admin/devices''
             (Some (demo_session (JStr ''507f1f77bcf86cd799439011''))))) = NotFound
   \<and> res_locals_user (attachUser (demo_config []) demo_driver id
        (demo_request ''/admin/devices''
           (Some (demo_session (JStr ''507f1f77bcf86cd799439011''))))) = JNull
   \<and> effects (attachUser (demo_config []) demo_driver
                (requireAuth (demo_config []) (requireAdmin (emit Next)))
        (demo_request ''/admin/devices''
           (Some (demo_session (JStr ''507f1f77bcf86cd799439011''))))) = [Redirect ''/'']"
proof -
  let ?c = "demo_request ''/admin/devices''
              (Some (demo_session (JStr ''507f1f77bcf86cd799439011'')))"
  have h: "resolve (demo_config []) demo_driver (req ?c) = NotFound"
    by (simp add: run_defs)
  have e: "effects ?c = []" "\<not> isApiRequest (req ?c)"
    by (simp_all add: run_defs)
  from stale_session_passes_requireAuth [OF h, of "demo_config []" "emit Next"] h e
  show ?thesis by simp
qed

section \<open>What the middleware writes to the session\<close>

text \<open>
  C2, as the specification states it: no stage ever writes the session. The code refutes
  this for \<^verbatim>\<open>requireAuth\<close>: rejecting an interactive request whose session has no user
  identifier, it assigns \<^verbatim>\<open>req.session.returnTo\<close> and calls \<^verbatim>\<open>req.session.save\<close>.
\<close>

theorem requireAuth_writes_session_counterexample:
  "session (req (requireAuth (demo_config []) (emit Next)
       (demo_request ''/admin/devices'' (Some (demo_session JUndefined)))))
     = Some ((demo_session JUndefined)\<lparr>returnTo := JStr ''/admin/devices''\<rparr>)
   \<and> session (req (requireAuth (demo_config []) (emit Next)
       (demo_request ''/admin/devices'' (Some (demo_session JUndefined)))))
     \<noteq> session (req (demo_request ''/admin/devices'' (Some (demo_session JUndefined))))
   \<and> effects (requireAuth (demo_config []) (emit Next)
       (demo_request ''/admin/devices'' (Some (demo_session JUndefined))))
     = [SessionSave None, Redirect ''https://data.specialblend.ca/login'']"
  by (simp add: requireAuth_def demo_config_def demo_request_def demo_session_def
      isApiRequest_def startsWith_def requested_url_def effects_def log_def emit_def is_log_def)

text \<open>
  C2, amended: \<^verbatim>\<open>attachUser\<close>, \<^verbatim>\<open>optionalAuth\<close> and \<^verbatim>\<open>requireAdmin\<close> only read the
  session: they leave the request and its session as they found them and never call the
  session's \<^verbatim>\<open>save\<close>. \<^verbatim>\<open>requireAuth\<close> never creates or deletes a session and never
  changes its user identifier. It writes one field, \<^verbatim>\<open>returnTo\<close> (set to
  \<^verbatim>\<open>req.originalUrl || req.url\<close>, when the assignment takes effect), and calls the
  session's \<^verbatim>\<open>save\<close> (when that is a function), both exactly when it rejects a request
  outside \<^verbatim>\<open>/api\<close> whose session has no user identifier; in every other case it
  leaves the request unchanged and calls no \<^verbatim>\<open>save\<close>.
\<close>

theorem session_frame:
  "req (attachUser cfg drv id c) = req c
   \<and> effects (attachUser cfg drv id c) = effects c
   \<and> req (optionalAuth cfg drv id c) = req c
   \<and> effects (optionalAuth cfg drv id c) = effects c
   \<and> req (requireAdmin id c) = req c
   \<and> save_calls (requireAdmin id c) = save_calls c
   \<and> req (requireAuth cfg id c) =
       (case session (req c) of
          None \<Rightarrow> req c
        | Some s \<Rightarrow>
            if \<not> truthy (userId s) \<and> \<not> isApiRequest (req c) \<and> returnTo_assign s = Assigned
            then (req c)\<lparr>session := Some (s\<lparr>returnTo := requested_url (req c)\<rparr>)\<rparr>
            else req c)
   \<and> map_option userId (session (req (requireAuth cfg id c)))
       = map_option userId (session (req c))
   \<and> save_calls (requireAuth cfg id c) =
       save_calls c
       @ (case session (req c) of
            None \<Rightarrow> []
          | Some s \<Rightarrow>
              if \<not> truthy (userId s) \<and> \<not> isApiRequest (req c)
              then (case save s of
                      NotAFunction \<Rightarrow> []
                    | CallsBack err \<Rightarrow> [SessionSave err]
                    | SaveThrows e \<Rightarrow> [SaveThrew e]
                    | NeverCallsBack \<Rightarrow> [SaveHangs])
              else [])"
proof -
  have a: "req (requireAdmin id c) = req c"
    by (simp add: requireAdmin_def)
  have b: "save_calls (requireAdmin id c) = save_calls c"
    by (simp add: requireAdmin_def save_calls_emit is_save_def)
  have d: "map_option userId (session (req (requireAuth cfg id c)))
             = map_option userId (session (req c))"
    by (simp add: requireAuth_req split: option.splits)
  show ?thesis
    by (intro conjI)
       (rule attachUser_req attachUser_effects optionalAuth_req optionalAuth_effects
          requireAuth_req requireAuth_save_calls a b d)+
qed

theorem session_frame_witness:
  "req (requireAuth (demo_config []) id
          (demo_request ''/api/devices'' (Some (demo_session JUndefined))))
     = req (demo_request ''/api/devices'' (Some (demo_session JUndefined)))
   \<and> save_calls (requireAuth (demo_config []) id
          (demo_request ''/api/devices'' (Some (demo_session JUndefined)))) = []
   \<and> session (req (requireAuth (demo_config []) id
          (demo_request ''/admin/devices'' (Some (demo_session JUndefined)))))
     = Some ((demo_session JUndefined)\<lparr>returnTo := JStr ''/admin/devices''\<rparr>)
   \<and> save_calls (requireAuth (demo_config []) id
          (demo_request ''/admin/devices'' (Some (demo_session JUndefined))))
     = [SessionSave None]
   \<and> req (attachUser (demo_config [demo_user]) demo_driver id
          (demo_request ''/admin/devices''
             (Some (demo_session (JStr ''507f1f77bcf86cd799439011'')))))
     = req (demo_request ''/admin/devices''
             (Some (demo_session (JStr ''507f1f77bcf86cd799439011''))))
   \<and> effects (attachUser (demo_config [demo_user]) demo_driver id
          (demo_request ''/admin/devices''
             (Some (demo_session (JStr ''507f1f77bcf86cd799439011''))))) = []"
  using session_frame [of "demo_config []" demo_driver
          "demo_request ''/api/devices'' (Some (demo_session JUndefined))"]
        session_frame [of "demo_config []" demo_driver
          "demo_request ''/admin/devices'' (Some (demo_session JUndefined))"]
        session_frame [of "demo_config [demo_user]" demo_driver
          "demo_request ''/admin/devices''
             (Some (demo_session (JStr ''507f1f77bcf86cd799439011'')))"]
  by (simp add: demo_request_def demo_session_def isApiRequest_def startsWith_def
      requested_url_def save_calls_def effects_def)

section \<open>The privilege gate\<close>

text \<open>
  C3, as the specification states it: \<^verbatim>\<open>requireAdmin\<close> accepts only when the flag is
  exactly the boolean \<^verbatim>\<open>true\<close>. The code tests truthiness: an identity whose
  \<^verbatim>\<open>isAdmin\<close> is the number 1 is accepted.
\<close>

theorem requireAdmin_truthy_counterexample:
  "effects (requireAdmin (emit Next)
      ((demo_request ''/admin/devices'' (Some (demo_session (JStr ''507f1f77bcf86cd799439011''))))
         \<lparr>res_locals_user := JObj [(''_id'', JStr ''507f1f77bcf86cd799439011''),
                                   (''name'', JStr ''Ann''), (''email'', JStr ''ann@example.org''),
                                   (''isAdmin'', JNum 1)]\<rparr>)) = [Next]
   \<and> get_prop (JObj [(''_id'', JStr ''507f1f77bcf86cd799439011''),
                      (''name'', JStr ''Ann''), (''email'', JStr ''ann@example.org''),
                      (''isAdmin'', JNum 1)]) ''isAdmin'' \<noteq> JBool True"
  by (simp add: requireAdmin_def js_and_def demo_request_def effects_def emit_def is_log_def)

text \<open>
  C3, amended: \<^verbatim>\<open>requireAdmin\<close> accepts a request (calls its continuation, no response)
  if and only if a published identity is present and its \<^verbatim>\<open>isAdmin\<close> flag is truthy;
  for a flag that is a boolean or missing this is: exactly when the flag is \<^verbatim>\<open>true\<close>.
  Any falsy or missing flag, and an absent identity, is rejected without calling the
  continuation: with status 403 and the body
  \<^verbatim>\<open>{status: 'error', message: 'Forbidden: Admin access required'}\<close> when the original URL
  starts with \<^verbatim>\<open>/api\<close>, and with a redirect to \<^verbatim>\<open>/\<close> (not to the login page) otherwise.
\<close>

theorem requireAdmin_accepts_iff_truthy:
  "(effects (requireAdmin (emit Next) c) = effects c @ [Next]
      \<longleftrightarrow> truthy (res_locals_user c) \<and> truthy (get_prop (res_locals_user c) ''isAdmin''))
   \<and> (truthy (res_locals_user c) \<and> truthy (get_prop (res_locals_user c) ''isAdmin'')
        \<longrightarrow> requireAdmin nxt c = nxt c)
   \<and> (\<not> (truthy (res_locals_user c) \<and> truthy (get_prop (res_locals_user c) ''isAdmin''))
        \<longrightarrow> requireAdmin nxt c = requireAdmin id c
          \<and> req (requireAdmin nxt c) = req c
          \<and> effects (requireAdmin nxt c)
              = effects c
                @ [if isApiRequest (req c)
                   then StatusJson 403 [(''status'', JStr ''error''),
                                        (''message'', JStr ''Forbidden: Admin access required'')]
                   else Redirect ''/''])
   \<and> (get_prop (res_locals_user c) ''isAdmin'' \<in> {JUndefined, JBool False, JBool True}
        \<longrightarrow> (effects (requireAdmin (emit Next) c) = effects c @ [Next]
             \<longleftrightarrow> truthy (res_locals_user c)
                 \<and> get_prop (res_locals_user c) ''isAdmin'' = JBool True))"
  by (auto simp: requireAdmin_def js_and_def effects_emit is_log_def forbidden_body_def)

theorem requireAdmin_accepts_iff_truthy_witness:
  "effects (requireAdmin (emit Next)
      ((demo_request ''/api/users'' None)
         \<lparr>res_locals_user := JObj [(''name'', JStr ''Ann''), (''isAdmin'', JBool True)]\<rparr>))
     = [Next]
   \<and> effects (requireAdmin (emit Next)
      ((demo_request ''/api/users'' None)
         \<lparr>res_locals_user := JObj [(''name'', JStr ''Ann''), (''isAdmin'', JBool False)]\<rparr>))
     = [StatusJson 403 [(''status'', JStr ''error''),
                        (''message'', JStr ''Forbidden: Admin access required'')]]
   \<and> effects (requireAdmin (emit Next) ((demo_request ''/admin'' None)\<lparr>res_locals_user := JNull\<rparr>))
     = [Redirect ''/'']"
proof -
  let ?t = "(demo_request ''/api/users'' None)
             \<lparr>res_locals_user := JObj [(''name'', JStr ''Ann''), (''isAdmin'', JBool True)]\<rparr>"
  let ?f = "(demo_request ''/api/users'' None)
             \<lparr>res_locals_user := JObj [(''name'', JStr ''Ann''), (''isAdmin'', JBool False)]\<rparr>"
  let ?n = "(demo_request ''/admin'' None)\<lparr>res_locals_user := JNull\<rparr>"
  have t: "truthy (res_locals_user ?t) \<and> truthy (get_prop (res_locals_user ?t) ''isAdmin'')"
    by simp
  have f: "\<not> (truthy (res_locals_user ?f) \<and> truthy (get_prop (res_locals_user ?f) ''isAdmin''))"
    by simp
  have n: "\<not> (truthy (res_locals_user ?n) \<and> truthy (get_prop (res_locals_user ?n) ''isAdmin''))"
    by simp
  have 1: "effects (requireAdmin (emit Next) ?t) = effects ?t @ [Next]"
    using requireAdmin_accepts_iff_truthy [of ?t "emit Next"] t by blast
  have 2: "effects (requireAdmin (emit Next) ?f)
            = effects ?f
              @ [if isApiRequest (req ?f)
                 then StatusJson 403 [(''status'', JStr ''error''),
                                      (''message'', JStr ''Forbidden: Admin access required'')]
                 else Redirect ''/'']"
    using requireAdmin_accepts_iff_truthy [of ?f "emit Next"] f by blast
  have 3: "effects (requireAdmin (emit Next) ?n)
            = effects ?n
              @ [if isApiRequest (req ?n)
                 then StatusJson 403 [(''status'', JStr ''error''),
                                      (''message'', JStr ''Forbidden: Admin access required'')]
                 else Redirect ''/'']"
    using requireAdmin_accepts_iff_truthy [of ?n "emit Next"] n by blast
  show ?thesis
    unfolding 1 2 3
    by (simp add: demo_request_def isApiRequest_def startsWith_def effects_def)
qed

section \<open>The shape of a rejection by requireAuth\<close>

text \<open>
  C4, as the specification states it: every unauthenticated request outside \<^verbatim>\<open>/api\<close>
  has its path recorded as the session's return path before the redirect. The code
  refutes this for a request that has no session object: it is redirected to the login
  page and nothing is recorded, there being no session to record it on.
\<close>

theorem no_session_counterexample:
  "session (req (requireAuth (demo_config []) (emit Next)
       (demo_request ''/admin/devices'' None))) = None
   \<and> effects (requireAuth (demo_config []) (emit Next) (demo_request ''/admin/devices'' None))
       = [Redirect ''https://data.specialblend.ca/login'']"
  by (simp add: requireAuth_def demo_config_def demo_request_def
      isApiRequest_def startsWith_def effects_def log_def emit_def is_log_def)

text \<open>
  C4, amended: whether a request is programmatic depends only on whether
  \<^verbatim>\<open>req.originalUrl\<close> starts with \<^verbatim>\<open>/api\<close>. For every unauthenticated request (no
  session object, or a session without user identifier) \<^verbatim>\<open>requireAuth\<close> does not call
  its continuation; if the original URL starts with \<^verbatim>\<open>/api\<close> it responds with status
  401 and the body \<^verbatim>\<open>{status: 'error', message: 'Unauthorized'}\<close> and changes nothing on
  the request; otherwise it redirects to the login URL, and when the request has a
  session object whose \<^verbatim>\<open>returnTo\<close> can be assigned it first records
  \<^verbatim>\<open>req.originalUrl || req.url\<close> there (the original URL whenever that is non-empty)
  and saves the session if the session has a \<^verbatim>\<open>save\<close> function. With a \<^verbatim>\<open>save\<close>
  function the redirect is issued from the callback of \<^verbatim>\<open>save\<close>, so it follows the
  save and is issued when \<^verbatim>\<open>save\<close> calls back.
\<close>

theorem requireAuth_rejection_shape:
  assumes "session (req c) = None \<or> (\<exists>s. session (req c) = Some s \<and> \<not> truthy (userId s))"
  shows "isApiRequest (req c) = (\<exists>u. originalUrl (req c) = Some u \<and> take 4 u = ''/api'')
    \<and> requireAuth cfg nxt c = requireAuth cfg id c
    \<and> (isApiRequest (req c) \<longrightarrow>
          req (requireAuth cfg nxt c) = req c
        \<and> effects (requireAuth cfg nxt c)
            = effects c @ [StatusJson 401 [(''status'', JStr ''error''),
                                           (''message'', JStr ''Unauthorized'')]])
    \<and> (\<not> isApiRequest (req c) \<longrightarrow>
          effects (requireAuth cfg nxt c)
            = effects c
              @ (case session (req c) of
                   None \<Rightarrow> [Redirect (loginRedirectUrl cfg)]
                 | Some s \<Rightarrow>
                     (case save s of
                        NotAFunction \<Rightarrow> [Redirect (loginRedirectUrl cfg)]
                      | CallsBack err \<Rightarrow> [SessionSave err, Redirect (loginRedirectUrl cfg)]
                      | SaveThrows e \<Rightarrow> [SaveThrew e]
                      | NeverCallsBack \<Rightarrow> [SaveHangs]))
        \<and> session (req (requireAuth cfg nxt c))
            = (case session (req c) of
                 None \<Rightarrow> None
               | Some s \<Rightarrow>
                   Some (if returnTo_assign s = Assigned
                         then s\<lparr>returnTo := requested_url (req c)\<rparr> else s)))
    \<and> (\<forall>u. originalUrl (req c) = Some u \<and> u \<noteq> [] \<longrightarrow> requested_url (req c) = JStr u)"
proof -
  have a: "isApiRequest (req c) = (\<exists>u. originalUrl (req c) = Some u \<and> take 4 u = ''/api'')"
    by (rule isApiRequest_prefix)
  have b: "requireAuth cfg nxt c = requireAuth cfg id c"
    using assms by (auto simp: requireAuth_def Let_def split: option.splits)
  have c1: "isApiRequest (req c) \<Longrightarrow> req (requireAuth cfg nxt c) = req c"
    using assms by (auto simp: requireAuth_def Let_def split: option.splits)
  have c2: "isApiRequest (req c) \<Longrightarrow> effects (requireAuth cfg nxt c)
            = effects c @ [StatusJson 401 [(''status'', JStr ''error''),
                                           (''message'', JStr ''Unauthorized'')]]"
    using assms
    by (auto simp: requireAuth_def Let_def effects_emit is_log_def unauthorized_body_def
        split: option.splits)
  have d1: "\<not> isApiRequest (req c) \<Longrightarrow> effects (requireAuth cfg nxt c)
            = effects c
              @ (case session (req c) of
                   None \<Rightarrow> [Redirect (loginRedirectUrl cfg)]
                 | Some s \<Rightarrow>
                     (case save s of
                        NotAFunction \<Rightarrow> [Redirect (loginRedirectUrl cfg)]
                      | CallsBack err \<Rightarrow> [SessionSave err, Redirect (loginRedirectUrl cfg)]
                      | SaveThrows e \<Rightarrow> [SaveThrew e]
                      | NeverCallsBack \<Rightarrow> [SaveHangs]))"
    using assms
    by (auto simp: requireAuth_def Let_def effects_emit is_log_def
        split: option.splits assignment.splits save_fn.splits)
  have d2: "\<not> isApiRequest (req c) \<Longrightarrow> session (req (requireAuth cfg nxt c))
            = (case session (req c) of
                 None \<Rightarrow> None
               | Some s \<Rightarrow>
                   Some (if returnTo_assign s = Assigned
                         then s\<lparr>returnTo := requested_url (req c)\<rparr> else s))"
    using assms
    by (auto simp: requireAuth_def Let_def
        split: option.splits assignment.splits save_fn.splits)
  have e: "\<forall>u. originalUrl (req c) = Some u \<and> u \<noteq> [] \<longrightarrow> requested_url (req c) = JStr u"
    by (simp add: requested_url_original)
  from a b c1 c2 d1 d2 e show ?thesis by blast
qed

theorem requireAuth_rejection_shape_witness:
  "effects (requireAuth (demo_config []) (emit Next) (demo_request ''/api/devices'' None))
     = [StatusJson 401 [(''status'', JStr ''error''), (''message'', JStr ''Unauthorized'')]]
   \<and> effects (requireAuth (demo_config []) (emit Next)
        (demo_request ''/admin/devices'' (Some (demo_session JUndefined))))
     = [SessionSave None, Redirect ''https://data.specialblend.ca/login'']
   \<and> session (req (requireAuth (demo_config []) (emit Next)
        (demo_request ''/admin/devices'' (Some (demo_session JUndefined)))))
     = Some ((demo_session JUndefined)\<lparr>returnTo := JStr ''/admin/devices''\<rparr>)"
proof -
  let ?a = "demo_request ''/api/devices'' None"
  let ?b = "demo_request ''/admin/devices'' (Some (demo_session JUndefined))"
  have ha: "session (req ?a) = None
             \<or> (\<exists>s. session (req ?a) = Some s \<and> \<not> truthy (userId s))"
    by (simp add: demo_request_def)
  have hb: "session (req ?b) = None
             \<or> (\<exists>s. session (req ?b) = Some s \<and> \<not> truthy (userId s))"
    by (simp add: demo_request_def demo_session_def)
  have f: "isApiRequest (req ?a)" "\<not> isApiRequest (req ?b)" "effects ?a = []" "effects ?b = []"
    "session (req ?b) = Some (demo_session JUndefined)"
    "returnTo_assign (demo_session JUndefined) = Assigned"
    "save (demo_session JUndefined) = CallsBack None"
    "requested_url (req ?b) = JStr ''/admin/devices''"
    "loginRedirectUrl (demo_config []) = ''https://data.specialblend.ca/login''"
    by (simp_all add: run_defs)
  have 1: "effects (requireAuth (demo_config []) (emit Next) ?a)
            = effects ?a @ [StatusJson 401 [(''status'', JStr ''error''),
                                            (''message'', JStr ''Unauthorized'')]]"
    using requireAuth_rejection_shape [OF ha, of "demo_config []" "emit Next"] f(1) by blast
  have 2: "effects (requireAuth (demo_config []) (emit Next) ?b)
            = effects ?b
              @ (case session (req ?b) of
                   None \<Rightarrow> [Redirect (loginRedirectUrl (demo_config []))]
                 | Some s \<Rightarrow>
                     (case save s of
                        NotAFunction \<Rightarrow> [Redirect (loginRedirectUrl (demo_config []))]
                      | CallsBack err \<Rightarrow>
                          [SessionSave err, Redirect (loginRedirectUrl (demo_config []))]
                      | SaveThrows e \<Rightarrow> [SaveThrew e]
                      | NeverCallsBack \<Rightarrow> [SaveHangs]))"
    and 3: "session (req (requireAuth (demo_config []) (emit Next) ?b))
            = (case session (req ?b) of
                 None \<Rightarrow> None
               | Some s \<Rightarrow>
                   Some (if returnTo_assign s = Assigned
                         then s\<lparr>returnTo := requested_url (req ?b)\<rparr> else s))"
    using requireAuth_rejection_shape [OF hb, of "demo_config []" "emit Next"] f(2) by blast+
  show ?thesis
    unfolding 1 2 3 by (simp add: f)
qed

section \<open>The resolver never blocks\<close>

text \<open>
  C6: for every request and every behaviour of the store, \<^verbatim>\<open>attachUser\<close> and
  \<^verbatim>\<open>optionalAuth\<close> end by calling their continuation, having produced no response and
  no other effect than log lines and having left the request unchanged; no exception of
  the store accessor, the driver or the lookup leaves them. Whenever the resolution
  fails (no session or identifier, no store handle, a malformed identifier, no record, an
  error thrown on the way) the published identity is null, as it is for a request
  without identity.
\<close>

theorem resolver_never_blocks:
  "attachUser cfg drv nxt c = nxt (attachUser cfg drv id c)
   \<and> optionalAuth cfg drv nxt c = nxt (optionalAuth cfg drv id c)
   \<and> effects (attachUser cfg drv id c) = effects c
   \<and> effects (optionalAuth cfg drv id c) = effects c
   \<and> req (attachUser cfg drv id c) = req c
   \<and> req (optionalAuth cfg drv id c) = req c
   \<and> (resolve cfg drv (req c) \<in> {NoIdentifier, NoHandle, Malformed, NotFound}
        \<or> (\<exists>e. resolve cfg drv (req c) = LookupError e)
      \<longrightarrow> res_locals_user (attachUser cfg drv id c) = JNull
        \<and> res_locals_user (optionalAuth cfg drv id c) = JNull)"
proof -
  have "resolve cfg drv (req c) \<in> {NoIdentifier, NoHandle, Malformed, NotFound}
        \<or> (\<exists>e. resolve cfg drv (req c) = LookupError e)
      \<Longrightarrow> res_locals_user (attachUser cfg drv id c) = JNull"
    by (auto simp: attachUser_user)
  then show ?thesis
    using attachUser_tail [of cfg drv nxt c] optionalAuth_tail [of cfg drv nxt c]
    by (simp add: attachUser_effects optionalAuth_effects attachUser_req optionalAuth_req
        optionalAuth_user)
qed

theorem resolver_never_blocks_witness:
  "effects (attachUser ((demo_config [demo_user])\<lparr>dbGetter := \<lambda>r. Inr None\<rparr>) demo_driver
      (emit Next)
      (demo_request ''/api/devices'' (Some (demo_session (JStr ''507f1f77bcf86cd799439011'')))))
     = [Next]
   \<and> res_locals_user (attachUser (demo_config [demo_user]) demo_driver id
      (demo_request ''/api/devices'' (Some (demo_session (JStr ''not-an-id''))))) = JNull
   \<and> effects (optionalAuth (failing_config (Exn ''MongoNetworkError'' ''timed out'')) demo_driver
      (emit Next)
      (demo_request ''/iot'' (Some (demo_session (JStr ''507f1f77bcf86cd799439011'')))))
     = [Next]
   \<and> res_locals_user (optionalAuth (failing_config (Exn ''MongoNetworkError'' ''timed out''))
      demo_driver id
      (demo_request ''/iot'' (Some (demo_session (JStr ''507f1f77bcf86cd799439011''))))) = JNull"
proof -
  let ?id = "JStr ''507f1f77bcf86cd799439011''"
  let ?c1 = "demo_request ''/api/devices'' (Some (demo_session ?id))"
  let ?g1 = "(demo_config [demo_user])\<lparr>dbGetter := \<lambda>r. Inr None\<rparr>"
  let ?c2 = "demo_request ''/api/devices'' (Some (demo_session (JStr ''not-an-id'')))"
  let ?c3 = "demo_request ''/iot'' (Some (demo_session ?id))"
  let ?g3 = "failing_config (Exn ''MongoNetworkError'' ''timed out'')"
  have h2: "resolve (demo_config [demo_user]) demo_driver (req ?c2) = Malformed"
    by (simp add: run_defs)
  have h3: "resolve ?g3 demo_driver (req ?c3) = LookupError (Exn ''MongoNetworkError'' ''timed out'')"
    by (simp add: run_defs failing_config_def)
  have e: "effects ?c1 = []" "effects ?c3 = []"
    by (simp_all add: demo_request_def effects_def)
  have 1: "effects (attachUser ?g1 demo_driver (emit Next) ?c1) = [Next]"
  proof -
    have "attachUser ?g1 demo_driver (emit Next) ?c1 = emit Next (attachUser ?g1 demo_driver id ?c1)"
      and "effects (attachUser ?g1 demo_driver id ?c1) = effects ?c1"
      using resolver_never_blocks [of ?g1 demo_driver "emit Next" ?c1] by blast+
    then show ?thesis by (simp add: effects_emit is_log_def e)
  qed
  have 2: "res_locals_user (attachUser (demo_config [demo_user]) demo_driver id ?c2) = JNull"
    using resolver_never_blocks [of "demo_config [demo_user]" demo_driver id ?c2] h2 by simp
  have 3: "effects (optionalAuth ?g3 demo_driver (emit Next) ?c3) = [Next]"
  proof -
    have "optionalAuth ?g3 demo_driver (emit Next) ?c3
            = emit Next (optionalAuth ?g3 demo_driver id ?c3)"
      and "effects (optionalAuth ?g3 demo_driver id ?c3) = effects ?c3"
      using resolver_never_blocks [of ?g3 demo_driver "emit Next" ?c3] by blast+
    then show ?thesis by (simp add: effects_emit is_log_def e)
  qed
  have 4: "res_locals_user (optionalAuth ?g3 demo_driver id ?c3) = JNull"
    using resolver_never_blocks [of ?g3 demo_driver id ?c3] h3 by simp
  from 1 2 3 4 show ?thesis by simp
qed

section \<open>The login redirect and the saving of the session\<close>

text \<open>
  C7, as the specification states it: whenever \<^verbatim>\<open>requireAuth\<close> rejects an interactive
  caller that has a session, the login redirect is still issued when recording the
  return path or saving the session fails, and the failure is logged. The code refutes
  this. \<^verbatim>\<open>req.session.save\<close> is called outside the \<^verbatim>\<open>try\<close> and the redirect is issued
  only in its callback: when \<^verbatim>\<open>save\<close> throws, the exception leaves the middleware and
  no redirect is issued, and when \<^verbatim>\<open>save\<close> never calls back no response is produced.
  And on a session that silently ignores the assignment of \<^verbatim>\<open>returnTo\<close> the return
  path is not recorded and nothing is logged at error level.
\<close>

theorem save_failure_counterexample:
  "trace (requireAuth (demo_config []) (emit Next)
      (demo_request ''/admin/devices''
        (Some \<lparr>userId = JUndefined, returnTo = JUndefined, returnTo_assign = Assigned,
               save = SaveThrows (Exn ''MongoError'' ''write failed'')\<rparr>)))
   = [Log ''requireAuth: Path: /admin/devices, Session ID: sid'' LInfo,
      Log ''requireAuth: No user ID for session. Path: /admin/devices'' LInfo,
      SaveThrew (Exn ''MongoError'' ''write failed'')]
   \<and> trace (requireAuth (demo_config []) (emit Next)
      (demo_request ''/admin/devices''
        (Some \<lparr>userId = JUndefined, returnTo = JUndefined, returnTo_assign = Assigned,
               save = NeverCallsBack\<rparr>)))
   = [Log ''requireAuth: Path: /admin/devices, Session ID: sid'' LInfo,
      Log ''requireAuth: No user ID for session. Path: /admin/devices'' LInfo,
      SaveHangs]
   \<and> requireAuth (demo_config []) (emit Next)
      (demo_request ''/admin/devices''
        (Some \<lparr>userId = JUndefined, returnTo = JUndefined, returnTo_assign = Ignored,
               save = CallsBack None\<rparr>))
   = \<lparr>req = \<lparr>originalUrl = Some ''/admin/devices'', path = Some ''/admin/devices'',
              url = Some ''/admin/devices'', sessionID = Some ''sid'',
              session = Some \<lparr>userId = JUndefined, returnTo = JUndefined,
                               returnTo_assign = Ignored, save = CallsBack None\<rparr>\<rparr>,
       res_locals_user = JUndefined,
       trace = [Log ''requireAuth: Path: /admin/devices, Session ID: sid'' LInfo,
                Log ''requireAuth: No user ID for session. Path: /admin/devices'' LInfo,
                SessionSave None,
                Redirect ''https://data.specialblend.ca/login'']\<rparr>"
  by (simp add: requireAuth_def demo_config_def demo_request_def isApiRequest_def
      startsWith_def log_def emit_def request_label_def str_or_def)

text \<open>
  C7, amended: when \<^verbatim>\<open>requireAuth\<close> rejects an interactive caller that has a session
  whose \<^verbatim>\<open>save\<close> is not a function or calls its callback, the redirect to the login
  URL is the last thing it does and it is always issued: before it come only log calls
  and the completed \<^verbatim>\<open>save\<close>, so the redirect follows the completion of \<^verbatim>\<open>save\<close>. It
  is issued whether the assignment of the return path took effect, was ignored or threw,
  and whether or not the callback of \<^verbatim>\<open>save\<close> received an error. An error received by
  the callback is passed to the module's \<^verbatim>\<open>log\<close> at error level before the redirect
  (and reaches the logger function when one is configured), and so is an exception
  thrown by the assignment of the return path.
\<close>

theorem login_redirect_after_save:
  assumes "session (req c) = Some s" and "\<not> truthy (userId s)" and "\<not> isApiRequest (req c)"
    and "save s = NotAFunction \<or> (\<exists>err. save s = CallsBack err)"
  shows "\<exists>pre. trace (requireAuth cfg nxt c) = trace c @ pre @ [Redirect (loginRedirectUrl cfg)]
     \<and> (\<forall>ev \<in> set pre. is_log ev \<or> (\<exists>err. ev = SessionSave err))
     \<and> (\<forall>err. save s = CallsBack err \<longrightarrow> SessionSave err \<in> set pre)
     \<and> (\<forall>e. save s = CallsBack (Some e) \<longrightarrow>
            Log (''requireAuth: ERROR SAVING SESSION: '' @ exn_to_string e) LError \<in> set pre
          \<and> (logger cfg \<longrightarrow>
               ''[AUTH ERROR] requireAuth: ERROR SAVING SESSION: '' @ exn_to_string e
                 \<in> set (logger_lines cfg pre)))
     \<and> (\<forall>e. returnTo_assign s = AssignThrows e \<longrightarrow>
            Log (''requireAuth: Failed to set returnTo on session: '' @ exn_to_string e) LError
              \<in> set pre)"
proof -
  note t = requireAuth_interactive_trace [OF assms(1-3), of cfg nxt]
  from assms(4) show ?thesis
  proof
    assume n: "save s = NotAFunction"
    show ?thesis
      apply (subst t)
      apply (rule exI [of _ "[Log (''requireAuth: Path: '' @ request_label (req c)
                 @ '', Session ID: '' @ str_or (sessionID (req c)) ''none'') LInfo,
           Log (''requireAuth: No user ID for session. Path: '' @ request_label (req c)) LInfo]
           @ (case returnTo_assign s of
                AssignThrows e \<Rightarrow> [Log (''requireAuth: Failed to set returnTo on session: ''
                                        @ exn_to_string e) LError]
              | _ \<Rightarrow> [])"])
      using n by (auto simp: is_log_def split: assignment.splits)
  next
    assume "\<exists>err. save s = CallsBack err"
    then obtain err where n: "save s = CallsBack err" by blast
    show ?thesis
      apply (subst t)
      apply (rule exI [of _ "[Log (''requireAuth: Path: '' @ request_label (req c)
                 @ '', Session ID: '' @ str_or (sessionID (req c)) ''none'') LInfo,
           Log (''requireAuth: No user ID for session. Path: '' @ request_label (req c)) LInfo]
           @ (case returnTo_assign s of
                AssignThrows e \<Rightarrow> [Log (''requireAuth: Failed to set returnTo on session: ''
                                        @ exn_to_string e) LError]
              | _ \<Rightarrow> [])
           @ SessionSave err
             # (case err of
                  None \<Rightarrow> []
                | Some e \<Rightarrow> [Log (''requireAuth: ERROR SAVING SESSION: ''
                                  @ exn_to_string e) LError])"])
      using n
      by (auto simp: is_log_def logger_lines_def createLogger_def
          split: assignment.splits option.splits)
  qed
qed

theorem login_redirect_after_save_witness:
  "\<exists>pre. trace (requireAuth (failing_config (Exn ''Error'' ''unused'')) (emit Next)
      (demo_request ''/admin/devices''
        (Some \<lparr>userId = JUndefined, returnTo = JUndefined,
               returnTo_assign = AssignThrows (Exn ''TypeError'' ''setter failed''),
               save = CallsBack (Some (Exn ''MongoError'' ''write failed''))\<rparr>)))
      = pre @ [Redirect ''https://data.specialblend.ca/login'']
    \<and> SessionSave (Some (Exn ''MongoError'' ''write failed'')) \<in> set pre
    \<and> Log ''requireAuth: ERROR SAVING SESSION: MongoError: write failed'' LError \<in> set pre
    \<and> ''[AUTH ERROR] requireAuth: ERROR SAVING SESSION: MongoError: write failed''
        \<in> set (logger_lines (failing_config (Exn ''Error'' ''unused'')) pre)
    \<and> Log ''requireAuth: Failed to set returnTo on session: TypeError: setter failed''
        LError \<in> set pre"
proof -
  let ?s = "\<lparr>userId = JUndefined, returnTo = JUndefined,
               returnTo_assign = AssignThrows (Exn ''TypeError'' ''setter failed''),
               save = CallsBack (Some (Exn ''MongoError'' ''write failed''))\<rparr>"
  let ?c = "demo_request ''/admin/devices'' (Some ?s)"
  let ?g = "failing_config (Exn ''Error'' ''unused'')"
  have h: "session (req ?c) = Some ?s" "\<not> truthy (userId ?s)" "\<not> isApiRequest (req ?c)"
    "save ?s = NotAFunction \<or> (\<exists>err. save ?s = CallsBack err)"
    by (simp_all add: demo_request_def isApiRequest_def startsWith_def)
  from login_redirect_after_save [OF h, of ?g "emit Next"]
  obtain pre where p: "trace (requireAuth ?g (emit Next) ?c)
                         = trace ?c @ pre @ [Redirect (loginRedirectUrl ?g)]"
    and sv: "\<forall>err. save ?s = CallsBack err \<longrightarrow> SessionSave err \<in> set pre"
    and lg: "\<forall>e. save ?s = CallsBack (Some e) \<longrightarrow>
            Log (''requireAuth: ERROR SAVING SESSION: '' @ exn_to_string e) LError \<in> set pre
          \<and> (logger ?g \<longrightarrow>
               ''[AUTH ERROR] requireAuth: ERROR SAVING SESSION: '' @ exn_to_string e
                 \<in> set (logger_lines ?g pre))"
    and rt: "\<forall>e. returnTo_assign ?s = AssignThrows e \<longrightarrow>
            Log (''requireAuth: Failed to set returnTo on session: '' @ exn_to_string e) LError
              \<in> set pre"
    by blast
  have g: "logger ?g" "loginRedirectUrl ?g = ''https://data.specialblend.ca/login''"
    "trace ?c = []"
    by (simp_all add: failing_config_def demo_request_def)
  show ?thesis
    apply (rule exI [of _ pre])
    using p sv lg rt g by (simp add: exn_to_string_def)
qed

section \<open>The published identity\<close>

text \<open>
  C8: for every user record the store resolves, the identity that \<^verbatim>\<open>attachUser\<close>
  publishes is an object with exactly the fields \<^verbatim>\<open>_id\<close>, \<^verbatim>\<open>name\<close>, \<^verbatim>\<open>email\<close> and
  \<^verbatim>\<open>isAdmin\<close>, the first three copied from the record; every other property of the
  record (a password hash, a token) is undefined on it; and \<^verbatim>\<open>isAdmin\<close> is \<^verbatim>\<open>false\<close>
  whenever the record's field is absent or falsy.
\<close>

theorem published_snapshot_allow_list:
  assumes "resolve cfg drv (req c) = Resolved u"
  shows "res_locals_user (attachUser cfg drv id c)
           = JObj [(''_id'', get_prop u ''_id''),
                   (''name'', get_prop u ''name''),
                   (''email'', get_prop u ''email''),
                   (''isAdmin'', if truthy (get_prop u ''isAdmin'')
                                 then get_prop u ''isAdmin'' else JBool False)]
       \<and> (\<forall>k. k \<notin> {''_id'', ''name'', ''email'', ''isAdmin''}
              \<longrightarrow> get_prop (res_locals_user (attachUser cfg drv id c)) k = JUndefined)
       \<and> (\<not> truthy (get_prop u ''isAdmin'')
              \<longrightarrow> get_prop (res_locals_user (attachUser cfg drv id c)) ''isAdmin'' = JBool False)"
proof -
  have p: "res_locals_user (attachUser cfg drv id c) = identity_snapshot u"
    by (simp add: attachUser_user assms)
  show ?thesis
    unfolding p
    by (simp add: get_prop_snapshot js_or_def) (simp add: identity_snapshot_def js_or_def)
qed

theorem published_snapshot_allow_list_witness:
  "resolve (demo_config [demo_user]) demo_driver
     (req (demo_request ''/iot'' (Some (demo_session (JStr ''507f1f77bcf86cd799439011'')))))
     = Resolved demo_user
   \<and> res_locals_user (attachUser (demo_config [demo_user]) demo_driver id
       (demo_request ''/iot'' (Some (demo_session (JStr ''507f1f77bcf86cd799439011'')))))
     = JObj [(''_id'', JStr ''507f1f77bcf86cd799439011''),
             (''name'', JStr ''Ann''),
             (''email'', JStr ''ann@example.org''),
             (''isAdmin'', JBool False)]
   \<and> get_prop (res_locals_user (attachUser (demo_config [demo_user]) demo_driver id
       (demo_request ''/iot'' (Some (demo_session (JStr ''507f1f77bcf86cd799439011''))))))
       ''password'' = JUndefined"
proof -
  let ?c = "demo_request ''/iot'' (Some (demo_session (JStr ''507f1f77bcf86cd799439011'')))"
  have h: "resolve (demo_config [demo_user]) demo_driver (req ?c) = Resolved demo_user"
    by (simp add: run_defs demo_user_def)
  note t = published_snapshot_allow_list [OF h]
  have a: "res_locals_user (attachUser (demo_config [demo_user]) demo_driver id ?c)
           = JObj [(''_id'', get_prop demo_user ''_id''),
                   (''name'', get_prop demo_user ''name''),
                   (''email'', get_prop demo_user ''email''),
                   (''isAdmin'', if truthy (get_prop demo_user ''isAdmin'')
                                 then get_prop demo_user ''isAdmin'' else JBool False)]"
    using t by (rule conjunct1)
  have b: "\<forall>k. k \<notin> {''_id'', ''name'', ''email'', ''isAdmin''}
              \<longrightarrow> get_prop (res_locals_user
                    (attachUser (demo_config [demo_user]) demo_driver id ?c)) k = JUndefined"
    using t by (rule conjunct1 [OF conjunct2])
  have k: "''password'' \<notin> {''_id'', ''name'', ''email'', ''isAdmin''}"
    by simp
  have p: "get_prop (res_locals_user (attachUser (demo_config [demo_user]) demo_driver id ?c))
             ''password'' = JUndefined"
    using b [rule_format, OF k] .
  have a': "res_locals_user (attachUser (demo_config [demo_user]) demo_driver id ?c)
     = JObj [(''_id'', JStr ''507f1f77bcf86cd799439011''),
             (''name'', JStr ''Ann''),
             (''email'', JStr ''ann@example.org''),
             (''isAdmin'', JBool False)]"
    unfolding a by (simp add: demo_user_def)
  from h a' p show ?thesis by (intro conjI)
qed

text \<open>
  C9: a second \<^verbatim>\<open>attachUser\<close> in the same request, run as the continuation of the first
  with the store giving the same answer for the request's session, publishes the same
  identity as the first.
\<close>

theorem attachUser_idempotent:
  assumes "resolve cfg2 drv2 (req c) = resolve cfg drv (req c)"
  shows "res_locals_user (attachUser cfg drv (attachUser cfg2 drv2 id) c)
           = res_locals_user (attachUser cfg drv id c)"
proof -
  have "attachUser cfg drv (attachUser cfg2 drv2 id) c
          = attachUser cfg2 drv2 id (attachUser cfg drv id c)"
    by (rule attachUser_tail)
  then show ?thesis
    by (simp add: attachUser_user attachUser_req assms)
qed

theorem attachUser_idempotent_witness:
  "resolve ((demo_config [demo_user])\<lparr>logger := True\<rparr>) demo_driver
     (req (demo_request ''/iot'' (Some (demo_session (JStr ''507f1f77bcf86cd799439011'')))))
   = resolve (demo_config [demo_user]) demo_driver
     (req (demo_request ''/iot'' (Some (demo_session (JStr ''507f1f77bcf86cd799439011'')))))
   \<and> res_locals_user
       (attachUser (demo_config [demo_user]) demo_driver
          (attachUser ((demo_config [demo_user])\<lparr>logger := True\<rparr>) demo_driver id)
          (demo_request ''/iot'' (Some (demo_session (JStr ''507f1f77bcf86cd799439011'')))))
     = res_locals_user
       (attachUser (demo_config [demo_user]) demo_driver id
          (demo_request ''/iot'' (Some (demo_session (JStr ''507f1f77bcf86cd799439011'')))))"
proof -
  let ?c = "demo_request ''/iot'' (Some (demo_session (JStr ''507f1f77bcf86cd799439011'')))"
  have h: "resolve ((demo_config [demo_user])\<lparr>logger := True\<rparr>) demo_driver (req ?c)
           = resolve (demo_config [demo_user]) demo_driver (req ?c)"
    by (simp add: run_defs demo_user_def)
  from attachUser_idempotent [OF h] h show ?thesis by (intro conjI)
qed

text \<open>
  C10: whatever value \<open>v\<close> earlier processing left in \<^verbatim>\<open>res.locals.user\<close>, after
  \<^verbatim>\<open>attachUser\<close> the slot holds null or the snapshot of the record the store returns
  now; it holds null whenever the resolution does not succeed; and when the session has
  a user identifier, the resolution (the \<^verbatim>\<open>try\<close> block) starts in a state \<open>c2\<close> in
  which the slot has already been reset to null.
\<close>

theorem attachUser_resets_identity:
  "res_locals_user (attachUser cfg drv id (c\<lparr>res_locals_user := v\<rparr>))
     = (case resolve cfg drv (req c) of Resolved u \<Rightarrow> identity_snapshot u | _ \<Rightarrow> JNull)
   \<and> ((\<forall>u. resolve cfg drv (req c) \<noteq> Resolved u)
        \<longrightarrow> res_locals_user (attachUser cfg drv id (c\<lparr>res_locals_user := v\<rparr>)) = JNull)
   \<and> (\<forall>s. session (req c) = Some s \<and> truthy (userId s) \<longrightarrow>
        (\<exists>c2. res_locals_user c2 = JNull \<and> req c2 = req c
           \<and> attachUser cfg drv nxt (c\<lparr>res_locals_user := v\<rparr>)
               = (case attachUser_try cfg drv nxt (userId s) c2 of
                    (Returned, c3) \<Rightarrow> c3
                  | (Fallthrough, c3) \<Rightarrow> nxt c3
                  | (Thrown e, c3) \<Rightarrow>
                      nxt (log (''attachUser: Error fetching user: '' @ emessage e)
                             LError c3))))"
proof -
  have a: "res_locals_user (attachUser cfg drv id (c\<lparr>res_locals_user := v\<rparr>))
     = (case resolve cfg drv (req c) of Resolved u \<Rightarrow> identity_snapshot u | _ \<Rightarrow> JNull)"
    by (simp add: attachUser_user)
  have b: "(\<forall>u. resolve cfg drv (req c) \<noteq> Resolved u)
        \<longrightarrow> res_locals_user (attachUser cfg drv id (c\<lparr>res_locals_user := v\<rparr>)) = JNull"
    unfolding a by (simp split: resolution.splits)
  have c: "\<exists>c2. res_locals_user c2 = JNull \<and> req c2 = req c
           \<and> attachUser cfg drv nxt (c\<lparr>res_locals_user := v\<rparr>)
               = (case attachUser_try cfg drv nxt (userId s) c2 of
                    (Returned, c3) \<Rightarrow> c3
                  | (Fallthrough, c3) \<Rightarrow> nxt c3
                  | (Thrown e, c3) \<Rightarrow>
                      nxt (log (''attachUser: Error fetching user: '' @ emessage e)
                             LError c3))"
    if "session (req c) = Some s" "truthy (userId s)" for s
    apply (rule exI [of _ "log (''attachUser: Session found with userId: ''
                               @ js_to_string (userId s)) LInfo
          ((log (''attachUser: Checking session for '' @ request_label (req c)
                      @ '' - Session ID: '' @ str_or (sessionID (req c)) ''none'') LInfo c)
             \<lparr>res_locals_user := JNull\<rparr>)"])
    using that by (simp add: attachUser_def)
  from a b c show ?thesis by blast
qed

theorem attachUser_resets_identity_witness:
  "res_locals_user (attachUser (demo_config []) demo_driver id
      ((demo_request ''/admin'' (Some (demo_session (JStr ''507f1f77bcf86cd799439011''))))
         \<lparr>res_locals_user := JObj [(''name'', JStr ''Ann''), (''isAdmin'', JBool True)]\<rparr>))
   = JNull"
proof -
  let ?c = "demo_request ''/admin'' (Some (demo_session (JStr ''507f1f77bcf86cd799439011'')))"
  have h: "\<forall>u. resolve (demo_config []) demo_driver (req ?c) \<noteq> Resolved u"
    by (simp add: run_defs)
  from attachUser_resets_identity [where cfg = "demo_config []" and drv = demo_driver
         and c = ?c and v = "JObj [(''name'', JStr ''Ann''), (''isAdmin'', JBool True)]"
         and nxt = id] h
  show ?thesis by blast
qed

end
